theory Spec2Isabelle
  imports Complex_Main
begin

section \<open>Python strings\<close>

text \<open>
  Python \<open>str\<close> values are modelled as \<open>string\<close> (lists of 8-bit characters), which
  covers the ASCII texts the downloader compares against. \<open>sub in s\<close> is \<open>contains sub s\<close>,
  \<open>s.lower()\<close> is \<open>lower s\<close> (ASCII letters only), \<open>s.split(d)\<close> is \<open>split_on d s\<close>,
  \<open>d.join(xs)\<close> is \<open>join d xs\<close> and \<open>str(i)\<close> of an integer is \<open>str_int i\<close>.
\<close>

fun contains :: "string \<Rightarrow> string \<Rightarrow> bool" where
  "contains sub [] = (sub = [])"
| "contains sub (c # cs) = (take (length sub) (c # cs) = sub \<or> contains sub cs)"

definition lower_char :: "char \<Rightarrow> char" where
  "lower_char c =
     (case map_of (zip ''ABCDEFGHIJKLMNOPQRSTUVWXYZ'' ''abcdefghijklmnopqrstuvwxyz'') c of
        Some d \<Rightarrow> d
      | None \<Rightarrow> c)"

definition lower :: "string \<Rightarrow> string" where
  "lower s = map lower_char s"

fun split_on :: "char \<Rightarrow> string \<Rightarrow> string list" where
  "split_on d [] = [[]]"
| "split_on d (c # cs) =
     (if c = d then [] # split_on d cs
      else (case split_on d cs of
              [] \<Rightarrow> [[c]]
            | w # ws \<Rightarrow> (c # w) # ws))"

fun join :: "string \<Rightarrow> string list \<Rightarrow> string" where
  "join d [] = []"
| "join d [x] = x"
| "join d (x # y # ys) = x @ d @ join d (y # ys)"

definition digit_char :: "nat \<Rightarrow> char" where
  "digit_char k = ''0123456789'' ! (k mod 10)"

fun str_nat :: "nat \<Rightarrow> string" where
  "str_nat n = (if n < 10 then [digit_char n] else str_nat (n div 10) @ [digit_char (n mod 10)])"

declare str_nat.simps [simp del]

definition str_int :: "int \<Rightarrow> string" where
  "str_int i = (if i < 0 then CHR ''-'' # str_nat (nat (- i)) else str_nat (nat i))"

definition isdigit :: "string \<Rightarrow> bool" where
  "isdigit s = (s \<noteq> [] \<and> list_all (\<lambda>c. c \<in> set ''0123456789'') s)"

definition endswith_char :: "string \<Rightarrow> char \<Rightarrow> bool" where
  "endswith_char s c = (s \<noteq> [] \<and> last s = c)"

section \<open>Format selectors\<close>

text \<open>
  \<open>_get_format_selector\<close> reads \<open>self.quality_var\<close> and returns the selector expression
  for the backend; \<open>quality[:-1]\<close> is \<open>butlast quality\<close>. The quality is passed as an
  argument here.
\<close>

definition get_format_selector :: "string \<Rightarrow> string" where
  "get_format_selector quality =
     (if quality = ''Audio Only'' then ''bestaudio''
      else if quality = ''Data Saving'' then
        ''worstvideo[height>=144]+bestaudio/602+139-drc/602+139/602/160+139/160/bestaudio''
      else if quality = ''Best Quality'' then
        ''bestvideo+bestaudio/best[height<=2160]/bestvideo[height<=1440]+bestaudio/bestvideo[height<=1080]+bestaudio/bestvideo+bestaudio/bestaudio''
      else if quality = ''720p'' then ''bestvideo[height<=720]+bestaudio/136+140/136+139/bestaudio''
      else if quality = ''480p'' then ''bestvideo[height<=480]+bestaudio/135+140/135+139/bestaudio''
      else if quality = ''360p'' then ''bestvideo[height<=360]+bestaudio/134+140/134+139/bestaudio''
      else if quality = ''240p'' then ''bestvideo[height<=240]+bestaudio/133+140/133+139/bestaudio''
      else if endswith_char quality (CHR ''p'') \<and> isdigit (butlast quality) then
        (let height = butlast quality
         in ''bestvideo[height<='' @ height @ '']+bestaudio/bestvideo[height<='' @ height
              @ '']/bestaudio'')
      else ''bestvideo+bestaudio/bestaudio'')"

text \<open>\<open>_get_no_merge_format_selector\<close>: the selector table for a missing ffmpeg.\<close>

definition get_no_merge_format_selector :: "string \<Rightarrow> string" where
  "get_no_merge_format_selector quality =
     (if quality = ''Audio Only'' then ''bestaudio''
      else if quality = ''Data Saving'' then ''worst/bestaudio''
      else if quality = ''Best Quality'' then ''best/bestaudio''
      else ''bestaudio'')"

text \<open>
  The backend reads a selector as alternatives separated by \<open>/\<close>, tried left to right;
  an alternative that joins two streams with \<open>+\<close> needs the merge tool.
\<close>

definition alternatives :: "string \<Rightarrow> string list" where
  "alternatives sel = split_on (CHR ''/'') sel"

definition requires_merge :: "string \<Rightarrow> bool" where
  "requires_merge alt = (CHR ''+'' \<in> set alt)"

section \<open>Exceptions, progress events and posted actions\<close>

text \<open>
  The exceptions the controller can meet. \<open>except Exception\<close> catches every class but
  \<open>KeyboardInterrupt\<close>; \<open>str_exn\<close> is \<open>str(e)\<close> (the text of a \<open>TypeError\<close> is kept
  as the interpreter gives it, abbreviated here to its first words).
\<close>

datatype exn = KeyboardInterrupt string | Exception string | KeyError string | TypeError string

fun str_exn :: "exn \<Rightarrow> string" where
  "str_exn (KeyboardInterrupt m) = m"
| "str_exn (Exception m) = m"
| "str_exn (KeyError k) = CHR 0x27 # k @ [CHR 0x27]"
| "str_exn (TypeError m) = m"

fun is_keyboard_interrupt :: "exn \<Rightarrow> bool" where
  "is_keyboard_interrupt (KeyboardInterrupt m) = True"
| "is_keyboard_interrupt e = False"

text \<open>
  A progress event is the dictionary \<open>d\<close> the backend hands to a progress hook. A numeric
  entry is absent (\<open>None\<close>), present with the value \<open>None\<close> (\<open>Some PyNone\<close>) or present with
  a number. Python computes the percentage in floating point; the model computes it in exact
  rational arithmetic.
\<close>

datatype pyval = PyNone | PyNum rat

record progress_event =
  status :: string
  downloaded_bytes :: "pyval option"
  total_bytes :: "pyval option"
  total_bytes_estimate :: "pyval option"
  fragment_index :: "pyval option"
  fragment_count :: "pyval option"
  percent_str :: "string option"
  filename :: "string option"
  error_text :: "string option"

text \<open>
  Messages written to the log, by what they report, and the actions a worker posts to the
  interface thread with \<open>root.after(0, ...)\<close>.
\<close>

datatype log_msg =
    MsgStopping
  | MsgDownloaded string
  | MsgFileExists
  | MsgInterrupted
  | Msg403Warning
  | Msg403Forbidden
  | MsgTryIndividual
  | MsgUnavailable
  | MsgPrimaryFailed string
  | MsgTryingFallback
  | MsgTryingDesperate
  | MsgAllExhausted
  | MsgDownloadedCount nat
  | MsgNoFiles
  | MsgFallbackAttempt nat string
  | MsgFallbackSuccess string
  | MsgFallbackFailed nat string
  | MsgDesperateConfig
  | MsgDesperateSuccess
  | Msg403ForFile
  | MsgErrorDownloading
  | MsgSelectedVideos nat string
  | MsgPlaylistRange string
  | MsgEntirePlaylist

datatype ui_action =
    Log log_msg
  | UpdateProgress rat
  | DownloadComplete
  | DownloadAlreadyComplete
  | DownloadError string
  | CleanupDownload

text \<open>
  \<open>positive_num f\<close> is the test \<open>'k' in d and d['k'] and d['k'] > 0\<close>, \<open>truthy_num f\<close> is
  \<open>'k' in d and d['k']\<close>, each giving the number when the test passes; \<open>item_num k f\<close> is
  the operand \<open>d['k']\<close> of a division: a missing key raises \<open>KeyError\<close>, the value
  \<open>None\<close> raises \<open>TypeError\<close>.
\<close>

definition truthy_num :: "pyval option \<Rightarrow> rat option" where
  "truthy_num f = (case f of Some (PyNum x) \<Rightarrow> (if x \<noteq> 0 then Some x else None) | _ \<Rightarrow> None)"

definition positive_num :: "pyval option \<Rightarrow> rat option" where
  "positive_num f = (case truthy_num f of Some x \<Rightarrow> (if x > 0 then Some x else None) | None \<Rightarrow> None)"

definition item_num :: "string \<Rightarrow> pyval option \<Rightarrow> exn + rat" where
  "item_num k f =
     (case f of
        None \<Rightarrow> Inl (KeyError k)
      | Some PyNone \<Rightarrow> Inl (TypeError ''unsupported operand type(s)'')
      | Some (PyNum x) \<Rightarrow> Inr x)"

definition is_space :: "char \<Rightarrow> bool" where
  "is_space c = (c \<in> set [CHR '' '', CHR 0x09, CHR 0x0A, CHR 0x0B, CHR 0x0C, CHR 0x0D])"

definition strip :: "string \<Rightarrow> string" where
  "strip s = rev (dropWhile is_space (rev (dropWhile is_space s)))"

definition remove_percent :: "string \<Rightarrow> string" where
  "remove_percent s = filter (\<lambda>c. c \<noteq> CHR ''%'') s"

text \<open>
  \<open>_progress_hook\<close>. \<open>py_float\<close> is Python's \<open>float\<close> on a string (\<open>None\<close> where it raises
  \<open>ValueError\<close>); \<open>downloading\<close> is \<open>self.is_downloading\<close>. The result is the exception
  raised or the actions posted. The occasional debug print is left out.
\<close>

definition progress_hook ::
  "(string \<Rightarrow> rat option) \<Rightarrow> bool \<Rightarrow> progress_event \<Rightarrow> exn + ui_action list" where
  "progress_hook py_float downloading d =
     (if \<not> downloading then Inl (KeyboardInterrupt ''Download cancelled by user'')
      else if status d = ''downloading'' then
        (case positive_num (total_bytes d) of
           Some tot \<Rightarrow>
             (case item_num ''downloaded_bytes'' (downloaded_bytes d) of
                Inl e \<Rightarrow> Inl e
              | Inr b \<Rightarrow> Inr [UpdateProgress (b / tot * 100)])
         | None \<Rightarrow>
        (case positive_num (total_bytes_estimate d) of
           Some estimate \<Rightarrow>
             (case item_num ''downloaded_bytes'' (downloaded_bytes d) of
                Inl e \<Rightarrow> Inl e
              | Inr b \<Rightarrow> Inr [UpdateProgress (b / estimate * 100)])
         | None \<Rightarrow>
        (if fragment_index d \<noteq> None \<and> fragment_count d \<noteq> None then
           (case positive_num (fragment_count d) of
              Some cnt \<Rightarrow>
                (case item_num ''fragment_index'' (fragment_index d) of
                   Inl e \<Rightarrow> Inl e
                 | Inr i \<Rightarrow>
                     (let fragment_progress = i / cnt * 100
                      in if downloaded_bytes d \<noteq> None \<and> total_bytes d \<noteq> None then
                           (case truthy_num (total_bytes d) of
                              Some tb \<Rightarrow>
                                (case item_num ''downloaded_bytes'' (downloaded_bytes d) of
                                   Inl e \<Rightarrow> Inl e
                                 | Inr b \<Rightarrow>
                                     Inr [UpdateProgress
                                            (fragment_progress + b / tb * (100 / cnt))])
                            | None \<Rightarrow> Inr [UpdateProgress fragment_progress])
                         else Inr [UpdateProgress fragment_progress]))
            | None \<Rightarrow> Inr [])
         else
        (case percent_str d of
           Some ps \<Rightarrow>
             (let percent_str = strip ps
              in if percent_str \<noteq> [] \<and> percent_str \<noteq> ''N/A'' \<and> percent_str \<noteq> ''Unknown''
                 then (case py_float (remove_percent percent_str) of
                         Some progress \<Rightarrow> Inr [UpdateProgress progress]
                       | None \<Rightarrow> Inr [])
                 else Inr [])
         | None \<Rightarrow>
        (case truthy_num (downloaded_bytes d) of
           Some b \<Rightarrow> Inr [UpdateProgress (min 50 (b / (1024 * 1024) * 2))]
         | None \<Rightarrow> Inr [])))))
      else if status d = ''error'' then
        (let error_msg = (case error_text d of None \<Rightarrow> ''Unknown download error'' | Some m \<Rightarrow> m)
         in if contains ''403'' error_msg \<or> contains ''Forbidden'' error_msg
            then Inr [Log Msg403ForFile]
            else Inr [Log MsgErrorDownloading])
      else if status d = ''finished'' then
        (case filename d of None \<Rightarrow> Inl (KeyError ''filename'') | Some f \<Rightarrow> Inr [])
      else Inr [])"

section \<open>Controller state, backend options and the backend\<close>

text \<open>
  The options dictionary \<open>ydl_opts\<close> handed to the backend is a map from key to value. An
  output template \<open>str(Path(dir) / name)\<close> is kept as the pair \<open>VPath dir name\<close>.
\<close>

datatype hook = ProgressHook | EnhancedProgressHook

datatype optval =
    VNone
  | VBool bool
  | VInt int
  | VStr string
  | VPath string string
  | VHooks "hook list"
  | VLogger

type_synonym ydl_opts = "string \<Rightarrow> optval option"

datatype btn_state = NORMAL | DISABLED

text \<open>
  The controller object \<open>self\<close>, with the fields the download path reads or writes. Three
  more groups of fields are kept in the same record: the locals of one run of
  \<open>_download_thread\<close> (\<open>downloaded_files\<close> and the logger's \<open>already_downloaded_detected\<close>),
  the worker threads started (\<open>threads\<close>, by URL), and what a run did: \<open>posted\<close> lists the
  log messages and the actions posted to the interface thread, oldest first, and \<open>attempts\<close>
  lists the backend download calls with the value of \<open>is_downloading\<close> when each was made.
\<close>

record app =
  is_downloading :: bool
  url_var :: string
  quality_var :: string
  subtitle_var :: bool
  playlist_var :: bool
  playlist_start_var :: string
  playlist_end_var :: string
  selected_playlist_indices :: "int list"
  download_path :: string
  download_btn :: btn_state
  stop_btn :: btn_state
  progress_var :: rat
  downloaded_files :: "string set"
  already_downloaded_detected :: bool
  threads :: "string list"
  posted :: "ui_action list"
  attempts :: "(bool \<times> ydl_opts) list"

text \<open>
  The backend is opaque: one download call is a script of what happens while it runs (the
  user pressing Stop, a progress event handed to the registered hooks, a debug line handed
  to the registered logger) and how it ends (\<open>raises = None\<close>: it returns; \<open>Some m\<close>: it
  raises an \<open>Exception\<close> with text \<open>m\<close>). An exception raised by a hook ends the call
  with that exception.
\<close>

datatype step = UserStop | Progress progress_event | DebugMsg string

record attempt =
  steps :: "step list"
  raises :: "string option"

text \<open>
  What the controller takes from outside: Python's \<open>int\<close> and \<open>float\<close> on strings
  (\<open>None\<close> where they raise \<open>ValueError\<close>), the result of \<open>_check_ffmpeg\<close>, the script
  of each backend call of a session (the URL is the same in all of them and is left out), the
  regular-expression test \<open>is_valid_youtube_url\<close>, whether the download directory can be
  created, and the default download directory.
\<close>

record env =
  py_int :: "string \<Rightarrow> int option"
  py_float :: "string \<Rightarrow> rat option"
  ffmpeg_available :: bool
  primary :: attempt
  fallback :: "nat \<Rightarrow> attempt"
  desperate :: attempt
  is_valid_youtube_url :: "string \<Rightarrow> bool"
  mkdir_ok :: "string \<Rightarrow> bool"
  project_downloads :: string

definition post :: "ui_action list \<Rightarrow> app \<Rightarrow> app" where
  "post acts st = st\<lparr>posted := posted st @ acts\<rparr>"

text \<open>\<open>stop_download\<close>, run on the interface thread when the user presses Stop.\<close>

definition stop_download :: "app \<Rightarrow> app" where
  "stop_download st =
     (if \<not> is_downloading st then st
      else (post [Log MsgStopping] st)\<lparr>is_downloading := False, stop_btn := DISABLED\<rparr>)"

text \<open>
  \<open>enhanced_progress_hook\<close>, the closure of \<open>_download_thread\<close> registered for the primary
  attempt: it checks the flag, records a finished file name once, and calls
  \<open>_progress_hook\<close>.
\<close>

definition enhanced_progress_hook :: "env \<Rightarrow> app \<Rightarrow> progress_event \<Rightarrow> app \<times> exn option" where
  "enhanced_progress_hook ev st d =
     (if \<not> is_downloading st then (st, Some (KeyboardInterrupt ''Download stopped by user''))
      else
        (let st1 =
           (if status d = ''finished'' then
              (let fname = (case filename d of None \<Rightarrow> [] | Some f \<Rightarrow> f)
               in if fname \<noteq> [] \<and> fname \<notin> downloaded_files st
                  then post [Log (MsgDownloaded fname)]
                         (st\<lparr>downloaded_files := insert fname (downloaded_files st)\<rparr>)
                  else st)
            else if status d = ''error''
                    \<and> contains ''already been downloaded''
                         (case error_text d of None \<Rightarrow> [] | Some m \<Rightarrow> m)
                 then post [Log MsgFileExists] st
            else st)
         in case progress_hook (py_float ev) (is_downloading st1) d of
              Inl e \<Rightarrow> (st1, Some e)
            | Inr acts \<Rightarrow> (post acts st1, None)))"

fun call_hook :: "env \<Rightarrow> hook \<Rightarrow> app \<Rightarrow> progress_event \<Rightarrow> app \<times> exn option" where
  "call_hook ev ProgressHook st d =
     (case progress_hook (py_float ev) (is_downloading st) d of
        Inl e \<Rightarrow> (st, Some e)
      | Inr acts \<Rightarrow> (post acts st, None))"
| "call_hook ev EnhancedProgressHook st d = enhanced_progress_hook ev st d"

fun call_hooks :: "env \<Rightarrow> hook list \<Rightarrow> app \<Rightarrow> progress_event \<Rightarrow> app \<times> exn option" where
  "call_hooks ev [] st d = (st, None)"
| "call_hooks ev (h # hs) st d =
     (case call_hook ev h st d of
        (st', Some e) \<Rightarrow> (st', Some e)
      | (st', None) \<Rightarrow> call_hooks ev hs st' d)"

definition hooks_of :: "ydl_opts \<Rightarrow> hook list" where
  "hooks_of opts = (case opts ''progress_hooks'' of Some (VHooks hs) \<Rightarrow> hs | _ \<Rightarrow> [])"

text \<open>\<open>AlreadyDownloadedLogger.debug\<close> (the file name it extracts is only displayed).\<close>

definition logger_debug :: "app \<Rightarrow> string \<Rightarrow> app" where
  "logger_debug st msg =
     (if contains ''has already been downloaded'' msg
      then (post [Log MsgFileExists] st)\<lparr>already_downloaded_detected := True\<rparr>
      else st)"

fun run_steps :: "env \<Rightarrow> ydl_opts \<Rightarrow> app \<Rightarrow> step list \<Rightarrow> app \<times> exn option" where
  "run_steps ev opts st [] = (st, None)"
| "run_steps ev opts st (UserStop # rest) = run_steps ev opts (stop_download st) rest"
| "run_steps ev opts st (Progress d # rest) =
     (case call_hooks ev (hooks_of opts) st d of
        (st', Some e) \<Rightarrow> (st', Some e)
      | (st', None) \<Rightarrow> run_steps ev opts st' rest)"
| "run_steps ev opts st (DebugMsg m # rest) =
     run_steps ev opts (if opts ''logger'' = Some VLogger then logger_debug st m else st) rest"

text \<open>\<open>with yt_dlp.YoutubeDL(ydl_opts) as ydl: ydl.download([url])\<close>.\<close>

definition ydl_download :: "env \<Rightarrow> ydl_opts \<Rightarrow> attempt \<Rightarrow> app \<Rightarrow> app \<times> exn option" where
  "ydl_download ev opts att st =
     (case run_steps ev opts (st\<lparr>attempts := attempts st @ [(is_downloading st, opts)]\<rparr>)
             (steps att) of
        (st', Some e) \<Rightarrow> (st', Some e)
      | (st', None) \<Rightarrow> (st', map_option Exception (raises att)))"

section \<open>The download thread\<close>

text \<open>
  The options of the primary attempt, built in the order of \<open>_download_thread\<close>. The
  selector of \<open>_get_format_selector\<close> is never \<open>None\<close>, so the test on it always passes.
\<close>

definition base_opts :: "app \<Rightarrow> ydl_opts" where
  "base_opts st =
     [''outtmpl'' \<mapsto> VPath (download_path st) ''%(title)s.%(ext)s'',
      ''progress_hooks'' \<mapsto> VHooks [ProgressHook],
      ''quiet'' \<mapsto> VBool False,
      ''ignoreerrors'' \<mapsto> VBool True,
      ''retries'' \<mapsto> VInt 3,
      ''fragment_retries'' \<mapsto> VInt 3,
      ''extractor_retries'' \<mapsto> VInt 2,
      ''no_warnings'' \<mapsto> VBool False,
      ''download_archive'' \<mapsto> VNone]"

definition format_opts :: "env \<Rightarrow> app \<Rightarrow> ydl_opts \<Rightarrow> ydl_opts" where
  "format_opts ev st opts =
     (let format_selector = get_format_selector (quality_var st)
      in if \<not> ffmpeg_available ev then opts(''format'' \<mapsto> VStr ''bestaudio'')
         else opts(''format'' \<mapsto> VStr format_selector))"

definition subtitle_opts :: "app \<Rightarrow> ydl_opts \<Rightarrow> ydl_opts" where
  "subtitle_opts st opts =
     (if subtitle_var st
      then opts(''writesubtitles'' \<mapsto> VBool True, ''writeautomaticsub'' \<mapsto> VBool True)
      else opts)"

text \<open>
  The playlist part: single-item constraint, explicit indices (cleared after use), or the
  range of the start and end fields. \<open>if end_num:\<close> fails for \<open>None\<close> and for \<open>0\<close>.
\<close>

definition playlist_opts :: "env \<Rightarrow> app \<Rightarrow> ydl_opts \<Rightarrow> ydl_opts \<times> app" where
  "playlist_opts ev st opts =
     (if \<not> playlist_var st then (opts(''noplaylist'' \<mapsto> VBool True), st)
      else if selected_playlist_indices st \<noteq> [] then
        (let indices_str = join '','' (map str_int (selected_playlist_indices st))
         in (opts(''playlist_items'' \<mapsto> VStr indices_str),
             (post [Log (MsgSelectedVideos (length (selected_playlist_indices st)) indices_str)] st)
               \<lparr>selected_playlist_indices := []\<rparr>))
      else if playlist_start_var st \<noteq> [] \<or> playlist_end_var st \<noteq> [] then
        (let start_num =
               (if playlist_start_var st \<noteq> []
                then (case py_int ev (playlist_start_var st) of Some n \<Rightarrow> n | None \<Rightarrow> 1)
                else 1);
             end_num =
               (if playlist_end_var st \<noteq> [] then py_int ev (playlist_end_var st) else None);
             items =
               (case end_num of
                  Some e \<Rightarrow>
                    (if e \<noteq> 0 then str_int start_num @ ''-'' @ str_int e
                     else str_int start_num @ ''-'')
                | None \<Rightarrow> str_int start_num @ ''-'')
         in (opts(''playlist_items'' \<mapsto> VStr items), post [Log (MsgPlaylistRange items)] st))
      else (opts, post [Log MsgEntirePlaylist] st))"

definition primary_opts :: "env \<Rightarrow> app \<Rightarrow> ydl_opts \<times> app" where
  "primary_opts ev st =
     (case playlist_opts ev st (subtitle_opts st (format_opts ev st (base_opts st))) of
        (opts, st') \<Rightarrow>
          (opts(''progress_hooks'' \<mapsto> VHooks [EnhancedProgressHook], ''logger'' \<mapsto> VLogger), st'))"

text \<open>\<open>_fallback_download\<close>: the options of attempt \<open>i\<close> (counted from 0) and the loop.\<close>

definition fallback_formats :: "string list" where
  "fallback_formats = [''bestaudio'', ''602+139-drc'', ''bestvideo+bestaudio'', ''602'', ''139-drc'']"

definition fallback_opts :: "app \<Rightarrow> nat \<Rightarrow> string \<Rightarrow> ydl_opts" where
  "fallback_opts st i fmt =
     (let opts = [''format'' \<mapsto> VStr fmt,
                  ''outtmpl'' \<mapsto> VPath (download_path st)
                     (''%(title)s_fallback'' @ str_int (int i + 1) @ ''.%(ext)s''),
                  ''progress_hooks'' \<mapsto> VHooks [ProgressHook]]
      in if \<not> playlist_var st then opts(''noplaylist'' \<mapsto> VBool True) else opts)"

definition truncate_msg :: "string \<Rightarrow> string" where
  "truncate_msg m = (if length m > 100 then take 100 m @ ''...'' else m)"

fun fallback_loop :: "env \<Rightarrow> app \<Rightarrow> nat \<Rightarrow> string list \<Rightarrow> app \<times> exn option" where
  "fallback_loop ev st i [] = (st, Some (Exception ''All fallback formats failed''))"
| "fallback_loop ev st i (fmt # fmts) =
     (if \<not> is_downloading st then (st, None)
      else
        (case ydl_download ev (fallback_opts st i fmt) (fallback ev i)
                (post [Log (MsgFallbackAttempt (i + 1) fmt)] st) of
           (st', None) \<Rightarrow>
             ((if is_downloading st'
               then post [DownloadComplete, Log (MsgFallbackSuccess fmt)] st'
               else st'), None)
         | (st', Some e) \<Rightarrow>
             (if is_keyboard_interrupt e then (st', Some e)
              else fallback_loop ev
                     (post [Log (MsgFallbackFailed (i + 1) (truncate_msg (str_exn e)))] st')
                     (i + 1) fmts)))"

definition fallback_download :: "env \<Rightarrow> app \<Rightarrow> app \<times> exn option" where
  "fallback_download ev st = fallback_loop ev st 0 fallback_formats"

text \<open>\<open>_desperate_fallback\<close>: no flag check before the call, no progress hook.\<close>

definition desperate_opts :: "app \<Rightarrow> ydl_opts" where
  "desperate_opts st =
     (let opts = [''format'' \<mapsto> VStr ''bestaudio'',
                  ''outtmpl'' \<mapsto> VPath (download_path st) ''%(title)s_desperate.%(ext)s'',
                  ''quiet'' \<mapsto> VBool True]
      in if \<not> playlist_var st then opts(''noplaylist'' \<mapsto> VBool True) else opts)"

definition desperate_fallback :: "env \<Rightarrow> app \<Rightarrow> app \<times> exn option" where
  "desperate_fallback ev st =
     (case ydl_download ev (desperate_opts st) (desperate ev) (post [Log MsgDesperateConfig] st) of
        (st', None) \<Rightarrow>
          ((if is_downloading st'
            then post [DownloadComplete, Log MsgDesperateSuccess] st'
            else st'), None)
      | (st', Some e) \<Rightarrow>
          (if is_keyboard_interrupt e then (st', Some e)
           else (st', Some (Exception (''Desperate fallback failed: '' @ str_exn e)))))"

text \<open>The \<open>finally\<close> clause of \<open>_download_thread\<close>.\<close>

definition finally_cleanup :: "app \<Rightarrow> app" where
  "finally_cleanup st = (if \<not> is_downloading st then post [CleanupDownload] st else st)"

text \<open>
  The fallback chain inside the outer \<open>except Exception as e\<close> of \<open>_download_thread\<close>:
  \<open>_fallback_download\<close>, and \<open>_desperate_fallback\<close> when that raises. A
  \<open>KeyboardInterrupt\<close> passes through both \<open>except Exception\<close> clauses. The second
  component of the result is the exception that leaves the thread uncaught, if any.
\<close>

definition fallback_chain :: "env \<Rightarrow> app \<Rightarrow> exn \<Rightarrow> app \<times> exn option" where
  "fallback_chain ev st e =
     (case fallback_download ev st of
        (st2, None) \<Rightarrow> (finally_cleanup st2, None)
      | (st2, Some fallback_error) \<Rightarrow>
          (if is_keyboard_interrupt fallback_error
           then (finally_cleanup st2, Some fallback_error)
           else
             (case desperate_fallback ev (post [Log MsgTryingDesperate] st2) of
                (st3, None) \<Rightarrow> (finally_cleanup st3, None)
              | (st3, Some desperate_error) \<Rightarrow>
                  (if is_keyboard_interrupt desperate_error
                   then (finally_cleanup st3, Some desperate_error)
                   else
                     (finally_cleanup
                        (post [DownloadError
                                 (''All download methods failed. Primary: ''
                                  @ take 100 (str_exn e) @ ''. Fallback: ''
                                  @ take 100 (str_exn fallback_error) @ ''. Desperate: ''
                                  @ take 100 (str_exn desperate_error)),
                               Log MsgAllExhausted] st3), None)))))"

text \<open>
  The outer \<open>except Exception as e\<close>: the error is classified on its lower-cased text,
  and the fallback chain runs only for an error that is not a restriction and only when no
  file was finished.
\<close>

definition handle_primary_error :: "env \<Rightarrow> app \<Rightarrow> exn \<Rightarrow> app \<times> exn option" where
  "handle_primary_error ev st e =
     (let error_str = lower (str_exn e);
          restricted = (contains ''403'' error_str \<or> contains ''forbidden'' error_str);
          st1 =
            (if restricted then post [Log Msg403Forbidden, Log MsgTryIndividual] st
             else if contains ''unavailable'' error_str then post [Log MsgUnavailable] st
             else post [Log (MsgPrimaryFailed (take 200 (str_exn e))), Log MsgTryingFallback] st)
      in if \<not> restricted \<and> downloaded_files st1 = {} then fallback_chain ev st1 e
         else (finally_cleanup (post [DownloadError (str_exn e)] st1), None))"

text \<open>
  \<open>_download_thread\<close>: the primary attempt (options, then the backend call with the
  enhanced hook and the logger), and the thread around it.
\<close>

definition primary_attempt :: "env \<Rightarrow> app \<Rightarrow> app \<times> exn option" where
  "primary_attempt ev st =
     (case primary_opts ev st of
        (opts, st1) \<Rightarrow>
          ydl_download ev opts (primary ev) (st1\<lparr>already_downloaded_detected := False\<rparr>))"

definition download_thread :: "env \<Rightarrow> app \<Rightarrow> app \<times> exn option" where
  "download_thread ev st0 =
     (let st = st0\<lparr>downloaded_files := {}\<rparr>
      in if \<not> is_downloading st then (finally_cleanup st, None)
         else
           (case primary_attempt ev st of
              (st2, None) \<Rightarrow>
                (if already_downloaded_detected st2 then
                   (finally_cleanup
                      (if is_downloading st2 then post [DownloadAlreadyComplete] st2 else st2),
                    None)
                 else if is_downloading st2 \<and> downloaded_files st2 \<noteq> {} then
                   (finally_cleanup
                      (post [DownloadComplete,
                             Log (MsgDownloadedCount (card (downloaded_files st2)))] st2),
                    None)
                 else if is_downloading st2 then
                   (finally_cleanup (post [Log MsgNoFiles] st2), None)
                 else (finally_cleanup st2, None))
            | (st2, Some e) \<Rightarrow>
                (if is_keyboard_interrupt e
                 then (finally_cleanup (post [Log MsgInterrupted] st2), None)
                 else
                   handle_primary_error ev
                     (if contains ''403'' (str_exn e) \<or> contains ''Forbidden'' (str_exn e)
                      then post [Log Msg403Warning] st2 else st2)
                     e)))"

section \<open>The playlist selector dialog\<close>

text \<open>
  The dialog holds the two range fields and one checkbox per playlist entry; entry number
  \<open>i\<close> (from 1, as \<open>enumerate(..., 1)\<close> numbers them) has the variable \<open>checked ! (i - 1)\<close>.
  A message box is the error returned. \<open>select_range\<close> clears every checkbox and ticks
  those in the range; \<open>apply_selection\<close> stores the ticked indices, sorted, and their
  first and last in the range fields of the main window (its log line is left out).
\<close>

record selector_dialog =
  range_start :: string
  range_end :: string
  checked :: "bool list"

datatype dialog_error = InvalidRange | InvalidInput | NoSelection

definition video_checkboxes :: "selector_dialog \<Rightarrow> (bool \<times> int) list" where
  "video_checkboxes dlg = zip (checked dlg) (map int [1..<Suc (length (checked dlg))])"

definition select_range :: "env \<Rightarrow> selector_dialog \<Rightarrow> dialog_error + selector_dialog" where
  "select_range ev dlg =
     (let n = int (length (video_checkboxes dlg))
      in case py_int ev (range_start dlg) of
           None \<Rightarrow> Inl InvalidInput
         | Some first \<Rightarrow>
             (let end_text = strip (range_end dlg)
              in case (if end_text \<noteq> [] then py_int ev end_text else Some n) of
                   None \<Rightarrow> Inl InvalidInput
                 | Some final \<Rightarrow>
                     (if first < 1 \<or> first > n then Inl InvalidRange
                      else if final < first \<or> final > n then Inl InvalidRange
                      else Inr (dlg\<lparr>checked :=
                                  map (\<lambda>(v, i). first \<le> i \<and> i \<le> final)
                                    (video_checkboxes dlg)\<rparr>))))"

definition list_min :: "int list \<Rightarrow> int" where
  "list_min xs = fold min (tl xs) (hd xs)"

definition list_max :: "int list \<Rightarrow> int" where
  "list_max xs = fold max (tl xs) (hd xs)"

definition apply_selection :: "selector_dialog \<Rightarrow> app \<Rightarrow> dialog_error + app" where
  "apply_selection dlg st =
     (let selected_videos = map snd (filter fst (video_checkboxes dlg))
      in if selected_videos = [] then Inl NoSelection
         else
           (let selected_videos = sort selected_videos;
                first_selected = list_min selected_videos;
                last_selected = list_max selected_videos
            in Inr (st\<lparr>playlist_start_var := str_int first_selected,
                        playlist_end_var := str_int last_selected,
                        selected_playlist_indices := selected_videos\<rparr>)))"

section \<open>Starting a download and the interface events\<close>

text \<open>\<open>start_download\<close>: the three early returns, then the flag, the buttons and the thread.\<close>

definition start_download :: "env \<Rightarrow> app \<Rightarrow> app" where
  "start_download ev st =
     (let url = strip (url_var st)
      in if url = [] then st
         else if \<not> is_valid_youtube_url ev url then st
         else if \<not> mkdir_ok ev (download_path st) then st
         else st\<lparr>download_btn := DISABLED, stop_btn := NORMAL, is_downloading := True,
                 progress_var := 0, threads := threads st @ [url]\<rparr>)"

text \<open>
  The handlers a worker posts: \<open>_download_complete\<close>, \<open>_download_already_complete\<close>,
  \<open>_download_error\<close>, \<open>_cleanup_download\<close> and \<open>_update_progress\<close>.
\<close>

fun run_action :: "ui_action \<Rightarrow> app \<Rightarrow> app" where
  "run_action (Log m) st = st"
| "run_action (UpdateProgress p) st = st\<lparr>progress_var := p\<rparr>"
| "run_action DownloadComplete st =
     st\<lparr>progress_var := 100, download_btn := NORMAL, stop_btn := DISABLED,
        is_downloading := False\<rparr>"
| "run_action DownloadAlreadyComplete st =
     st\<lparr>progress_var := 100, download_btn := NORMAL, stop_btn := DISABLED,
        is_downloading := False\<rparr>"
| "run_action (DownloadError m) st =
     st\<lparr>download_btn := NORMAL, stop_btn := DISABLED, is_downloading := False\<rparr>"
| "run_action CleanupDownload st =
     st\<lparr>is_downloading := False, download_btn := NORMAL, stop_btn := DISABLED,
        progress_var := 0\<rparr>"

text \<open>\<open>reset_all_options\<close>, reached from \<open>manual_reset_options\<close> once the user confirms.\<close>

definition reset_all_options :: "env \<Rightarrow> app \<Rightarrow> app" where
  "reset_all_options ev st =
     st\<lparr>url_var := [], quality_var := ''Best Quality'', subtitle_var := False,
        playlist_var := False, playlist_start_var := ''1'', playlist_end_var := [],
        download_path := project_downloads ev, selected_playlist_indices := [],
        is_downloading := False, progress_var := 0\<rparr>"

text \<open>
  The events of the interface thread. The F9, F10 and Escape bindings test the flag before
  they call the operation; a button runs its command only while its state is \<open>NORMAL\<close>.
\<close>

datatype ui_event =
    PressF9
  | ClickDownload
  | PressF10
  | PressEscape
  | ClickStop
  | PressCtrlR
  | TypeUrl string
  | Run ui_action

fun ui_step :: "env \<Rightarrow> app \<Rightarrow> ui_event \<Rightarrow> app" where
  "ui_step ev st PressF9 = (if \<not> is_downloading st then start_download ev st else st)"
| "ui_step ev st ClickDownload = (if download_btn st = NORMAL then start_download ev st else st)"
| "ui_step ev st PressF10 = (if is_downloading st then stop_download st else st)"
| "ui_step ev st PressEscape = (if is_downloading st then stop_download st else st)"
| "ui_step ev st ClickStop = (if stop_btn st = NORMAL then stop_download st else st)"
| "ui_step ev st PressCtrlR = (if is_downloading st then st else reset_all_options ev st)"
| "ui_step ev st (TypeUrl u) = st\<lparr>url_var := u\<rparr>"
| "ui_step ev st (Run a) = run_action a st"

text \<open>
  The controller as \<open>__init__\<close> leaves it: \<open>setup_ui\<close> creates the buttons and the final
  \<open>reset_all_options\<close> sets the options.
\<close>

definition init_app :: "env \<Rightarrow> app" where
  "init_app ev =
     \<lparr>is_downloading = False, url_var = [], quality_var = ''Best Quality'', subtitle_var = False,
      playlist_var = False, playlist_start_var = ''1'', playlist_end_var = [],
      selected_playlist_indices = [], download_path = project_downloads ev,
      download_btn = NORMAL, stop_btn = DISABLED, progress_var = 0, downloaded_files = {},
      already_downloaded_detected = False, threads = [], posted = [], attempts = []\<rparr>"

section \<open>The file names a run of events reports as finished\<close>



section \<open>Example inputs\<close>

text \<open>
  Concrete inputs for the examples below. \<open>dec_int\<close> is \<open>int\<close> on plain strings of decimal
  digits and \<open>dec_float\<close> is \<open>float\<close> on them (no other string is parsed in the examples);
  the URL test accepts the watch URLs used here.
\<close>

definition digit_val :: "char \<Rightarrow> int" where
  "digit_val c = int (length (takeWhile (\<lambda>d. d \<noteq> c) ''0123456789''))"

definition dec_int :: "string \<Rightarrow> int option" where
  "dec_int s = (if isdigit s then Some (foldl (\<lambda>n c. 10 * n + digit_val c) 0 s) else None)"

definition dec_float :: "string \<Rightarrow> rat option" where
  "dec_float s = map_option of_int (dec_int s)"

definition returns_ok :: attempt where
  "returns_ok = \<lparr>steps = [], raises = None\<rparr>"

definition fails_with :: "string \<Rightarrow> attempt" where
  "fails_with m = \<lparr>steps = [], raises = Some m\<rparr>"

definition test_env :: env where
  "test_env =
     \<lparr>py_int = dec_int, py_float = dec_float, ffmpeg_available = True,
      primary = returns_ok, fallback = (\<lambda>i. returns_ok), desperate = returns_ok,
      is_valid_youtube_url = (\<lambda>u. take 32 u = ''https://www.youtube.com/watch?v='' \<and> 32 < length u),
      mkdir_ok = (\<lambda>p. True), project_downloads = ''downloads''\<rparr>"

definition test_app :: app where
  "test_app = (init_app test_env)\<lparr>url_var := ''https://www.youtube.com/watch?v=abc''\<rparr>"

definition finished_event :: "string \<Rightarrow> progress_event" where
  "finished_event f =
     \<lparr>status = ''finished'', downloaded_bytes = None, total_bytes = None,
      total_bytes_estimate = None, fragment_index = None, fragment_count = None,
      percent_str = None, filename = Some f, error_text = None\<rparr>"

definition downloading_event :: progress_event where
  "downloading_event =
     \<lparr>status = ''downloading'', downloaded_bytes = None, total_bytes = None,
      total_bytes_estimate = None, fragment_index = None, fragment_count = None,
      percent_str = None, filename = None, error_text = None\<rparr>"

text \<open>
  A backend whose primary call and five fallbacks fail, the user pressing Stop while the
  fifth fallback runs; a backend whose primary call is refused with HTTP 403; a controller
  with a download running; a controller and a dialog with given range fields (ten entries);
  and a dialog of five entries with the second and fifth ticked.
\<close>

definition stop_in_last_fallback :: env where
  "stop_in_last_fallback =
     test_env\<lparr>primary := fails_with ''network error'',
              fallback := (\<lambda>i. if i = 4 then \<lparr>steps = [UserStop], raises = Some ''no format''\<rparr>
                                else fails_with ''no format'')\<rparr>"

definition restricted_env :: env where
  "restricted_env = test_env\<lparr>primary := fails_with ''HTTP Error 403: Forbidden''\<rparr>"

definition running_app :: app where
  "running_app = test_app\<lparr>is_downloading := True\<rparr>"

definition range_app :: "string \<Rightarrow> string \<Rightarrow> app" where
  "range_app first final =
     running_app\<lparr>playlist_var := True, playlist_start_var := first, playlist_end_var := final\<rparr>"

definition range_dialog :: "string \<Rightarrow> string \<Rightarrow> selector_dialog" where
  "range_dialog first final = \<lparr>range_start = first, range_end = final, checked = replicate 10 False\<rparr>"

definition two_of_five :: selector_dialog where
  "two_of_five = \<lparr>range_start = ''1'', range_end = ''5'', checked = [False, True, False, False, True]\<rparr>"

text \<open>
  A backend without the merge tool whose primary call and first fallback fail; a backend
  whose primary call fails and whose first fallback reports \<open>video.mp4\<close> finished twice
  and returns; a dialog of five entries with only the third ticked; and the controller, in
  playlist mode, after \<open>apply_selection\<close> on a dialog.
\<close>

definition no_ffmpeg_failing :: env where
  "no_ffmpeg_failing =
     test_env\<lparr>ffmpeg_available := False, primary := fails_with ''network error'',
              fallback := (\<lambda>i. if i = 0 then fails_with ''no format'' else returns_ok)\<rparr>"

definition fallback_finishes :: env where
  "fallback_finishes =
     test_env\<lparr>primary := fails_with ''network error'',
              fallback := (\<lambda>i. \<lparr>steps = [Progress (finished_event ''video.mp4''),
                                           Progress (finished_event ''video.mp4'')],
                                  raises = None\<rparr>)\<rparr>"

definition third_of_five :: selector_dialog where
  "third_of_five = \<lparr>range_start = ''1'', range_end = ''5'', checked = [False, False, True, False, False]\<rparr>"

definition selected_app :: "selector_dialog \<Rightarrow> app" where
  "selected_app dlg =
     (case apply_selection dlg (running_app\<lparr>playlist_var := True\<rparr>) of
        Inr st \<Rightarrow> st
      | Inl e \<Rightarrow> running_app)"

section \<open>The keys of a fallback attempt\<close>

text \<open>
  The keys that the options of a fallback attempt or of the last-resort attempt can hold, and
  the keys that only the primary attempt sets (subtitles, item selector, retry counts, error
  tolerance, logger). An attempt is \<open>minimal\<close> when its options hold no other key than the
  former.
\<close>

definition fallback_keys :: "string set" where
  "fallback_keys = {''format'', ''outtmpl'', ''progress_hooks'', ''quiet'', ''noplaylist''}"

definition minimal_opts :: "bool \<times> ydl_opts \<Rightarrow> bool" where
  "minimal_opts a = (dom (snd a) \<subseteq> fallback_keys)"


section \<open>Unfolding rules\<close>

lemmas opts_defs = base_opts_def format_opts_def subtitle_opts_def playlist_opts_def
  primary_opts_def fallback_opts_def desperate_opts_def

lemmas thread_defs = download_thread_def primary_attempt_def handle_primary_error_def fallback_chain_def
  fallback_download_def fallback_formats_def desperate_fallback_def finally_cleanup_def
  ydl_download_def post_def stop_download_def hooks_of_def truncate_msg_def

lemmas example_defs = test_env_def test_app_def init_app_def returns_ok_def fails_with_def
  dec_int_def dec_float_def digit_val_def isdigit_def finished_event_def downloading_event_def

lemmas str_defs = str_int_def str_nat.simps digit_char_def lower_def lower_char_def

lemmas fixture_defs = restricted_env_def running_app_def range_app_def range_dialog_def two_of_five_def
  no_ffmpeg_failing_def fallback_finishes_def third_of_five_def selected_app_def

section \<open>Facts about the string functions\<close>

lemma split_on_not_Nil: "split_on d s \<noteq> []"
  by (induction s) (auto split: list.splits)

lemma split_on_no_delim: "d \<notin> set s \<Longrightarrow> split_on d s = [s]"
  by (induction s) auto

lemma split_on_append:
  "split_on d (xs @ d # ys) = split_on d xs @ split_on d ys"
proof (induction xs)
  case Nil
  show ?case by simp
next
  case (Cons x xs)
  obtain w ws where w: "split_on d xs = w # ws"
    using split_on_not_Nil [of d xs] by (cases "split_on d xs") auto
  show ?case using Cons.IH w by simp
qed

lemma last_split_on_append:
  "last (split_on d (xs @ d # ys)) = last (split_on d ys)"
  by (simp add: split_on_append split_on_not_Nil)

lemma last_alternatives_suffix:
  "CHR ''/'' \<notin> set ys \<Longrightarrow> last (alternatives (xs @ CHR ''/'' # ys)) = ys"
  by (simp add: alternatives_def last_split_on_append split_on_no_delim)

lemma alternatives_not_Nil: "alternatives sel \<noteq> []"
  by (simp add: alternatives_def split_on_not_Nil)

lemma last_alternatives_get_format_selector:
  "last (alternatives (get_format_selector q)) = ''bestaudio''"
proof -
  have dyn: "last (alternatives (''bestvideo[height<='' @ h @ '']+bestaudio/bestvideo[height<=''
                 @ h @ '']/bestaudio'')) = ''bestaudio''" for h
    using last_alternatives_suffix
      [of "''bestaudio''" "''bestvideo[height<='' @ h @ '']+bestaudio/bestvideo[height<='' @ h @ '']''"]
    by simp
  note dyn' = dyn [simplified]
  show ?thesis
    unfolding get_format_selector_def Let_def
    by (simp add: dyn') (simp add: alternatives_def)
qed

lemma no_merge_selector_cases:
  "get_no_merge_format_selector q \<in> {''bestaudio'', ''worst/bestaudio'', ''best/bestaudio''}"
  by (simp add: get_no_merge_format_selector_def)

section \<open>Claims about the format selectors\<close>

text \<open>
  C2. For every quality value (the enumerated tiers, any numeric \<open>Np\<close> tier and any
  unrecognised value) the selector returned with the merge tool (\<open>get_format_selector\<close>) and
  the one for a missing merge tool (\<open>get_no_merge_format_selector\<close>) are non-empty lists of
  \<open>/\<close>-separated alternatives whose last alternative is \<open>bestaudio\<close>, and no alternative of
  the no-merge selector combines two streams.
\<close>

theorem format_selector_ends_in_bestaudio:
  "alternatives (get_format_selector q) \<noteq> []
   \<and> last (alternatives (get_format_selector q)) = ''bestaudio''
   \<and> alternatives (get_no_merge_format_selector q) \<noteq> []
   \<and> last (alternatives (get_no_merge_format_selector q)) = ''bestaudio''
   \<and> filter requires_merge (alternatives (get_no_merge_format_selector q)) = []"
proof -
  have nm: "last (alternatives (get_no_merge_format_selector q)) = ''bestaudio''
            \<and> filter requires_merge (alternatives (get_no_merge_format_selector q)) = []"
    using no_merge_selector_cases [of q]
    by (auto simp: alternatives_def requires_merge_def)
  show ?thesis
    using nm alternatives_not_Nil last_alternatives_get_format_selector by simp
qed

lemma primary_format: "fst (primary_opts ev st) ''format'' = Some (VStr (if ffmpeg_available ev then get_format_selector (quality_var st) else ''bestaudio''))"
  by (simp add: opts_defs Let_def split: prod.splits)

section \<open>Lower-casing keeps the restriction markers\<close>

lemma contains_map: "contains sub s \<Longrightarrow> contains (map f sub) (map f s)"
proof (induction s)
  case Nil
  then show ?case by simp
next
  case (Cons c cs)
  show ?case
  proof (cases "take (length sub) (c # cs) = sub")
    case True
    then have "take (length (map f sub)) (map f (c # cs)) = map f sub"
      by (metis length_map take_map)
    then show ?thesis by simp
  next
    case False
    then show ?thesis using Cons by simp
  qed
qed

lemma contains_lower_403: "contains ''403'' s \<Longrightarrow> contains ''403'' (lower s)"
  using contains_map [of "''403''" s lower_char] by (simp add: lower_def lower_char_def)

lemma contains_lower_forbidden: "contains ''Forbidden'' s \<Longrightarrow> contains ''forbidden'' (lower s)"
  using contains_map [of "''Forbidden''" s lower_char] by (simp add: lower_def lower_char_def)

section \<open>The backend calls of a run\<close>

text \<open>
  Only \<open>ydl_download\<close> adds to \<open>attempts\<close>, one entry per call; hooks, the logger
  and the Stop button leave it alone. A run that starts with the flag set makes the primary
  call first.
\<close>

lemma attempts_post [simp]: "attempts (post acts st) = attempts st"
  by (simp add: post_def)

lemma attempts_stop_download [simp]: "attempts (stop_download st) = attempts st"
  by (simp add: stop_download_def)

lemma attempts_logger_debug [simp]: "attempts (logger_debug st m) = attempts st"
  by (simp add: logger_debug_def)

lemma attempts_enhanced [simp]: "attempts (fst (enhanced_progress_hook ev st d)) = attempts st"
  by (simp add: enhanced_progress_hook_def Let_def split: sum.splits)

lemma attempts_call_hook [simp]: "attempts (fst (call_hook ev h st d)) = attempts st"
  by (cases h) (simp_all split: sum.splits)

lemma attempts_call_hooks [simp]: "attempts (fst (call_hooks ev hs st d)) = attempts st"
proof (induction hs arbitrary: st)
  case Nil
  show ?case by simp
next
  case (Cons h hs)
  show ?case
  proof (cases "call_hook ev h st d")
    case (Pair st' r)
    then have "attempts st' = attempts st" using attempts_call_hook [of ev h st d] by simp
    then show ?thesis using Pair Cons [of st'] by (cases r) simp_all
  qed
qed

lemma attempts_run_steps [simp]: "attempts (fst (run_steps ev opts st ss)) = attempts st"
proof (induction ev opts st ss rule: run_steps.induct)
  case (3 ev opts st d rest)
  show ?case
  proof (cases "call_hooks ev (hooks_of opts) st d")
    case (Pair st' r)
    then have a: "attempts st' = attempts st" using attempts_call_hooks [of ev "hooks_of opts" st d] by simp
    show ?thesis
    proof (cases r)
      case None
      then show ?thesis using Pair a "3" by simp
    next
      case (Some e)
      then show ?thesis using Pair a by simp
    qed
  qed
qed simp_all

lemma attempts_ydl_download:
  "attempts (fst (ydl_download ev opts att st)) = attempts st @ [(is_downloading st, opts)]"
proof -
  let ?st = "st\<lparr>attempts := attempts st @ [(is_downloading st, opts)]\<rparr>"
  have "attempts (fst (run_steps ev opts ?st (steps att))) = attempts ?st" by (rule attempts_run_steps)
  then show ?thesis
    by (cases "run_steps ev opts ?st (steps att)") (auto simp: ydl_download_def split: option.splits)
qed

lemma primary_opts_frame:
  "attempts (snd (primary_opts ev st)) = attempts st
   \<and> is_downloading (snd (primary_opts ev st)) = is_downloading st
   \<and> downloaded_files (snd (primary_opts ev st)) = downloaded_files st"
  by (simp add: primary_opts_def playlist_opts_def post_def Let_def split: prod.splits)

lemma attempts_primary_attempt:
  "attempts (fst (primary_attempt ev st)) = attempts st @ [(is_downloading st, fst (primary_opts ev st))]"
proof (cases "primary_opts ev st")
  case (Pair opts st1)
  then show ?thesis using primary_opts_frame [of ev st]
    by (simp add: primary_attempt_def attempts_ydl_download)
qed

lemma attempts_finally_cleanup [simp]: "attempts (finally_cleanup st) = attempts st"
  by (simp add: finally_cleanup_def)

lemma dom_fallback_opts:
  "dom (fallback_opts st i fmt)
     = {''format'', ''outtmpl'', ''progress_hooks''} \<union> (if playlist_var st then {} else {''noplaylist''})"
  by (auto simp: fallback_opts_def Let_def)

lemma dom_desperate_opts:
  "dom (desperate_opts st)
     = {''format'', ''outtmpl'', ''quiet''} \<union> (if playlist_var st then {} else {''noplaylist''})"
  by (auto simp: desperate_opts_def Let_def)

lemma minimal_fallback_opts: "minimal_opts (b, fallback_opts st i fmt)"
  by (auto simp: minimal_opts_def fallback_keys_def dom_fallback_opts)

lemma minimal_desperate_opts: "minimal_opts (b, desperate_opts st)"
  by (auto simp: minimal_opts_def fallback_keys_def dom_desperate_opts)

lemma fallback_loop_attempts:
  "\<exists>xs. attempts (fst (fallback_loop ev st i fmts)) = attempts st @ xs \<and> list_all minimal_opts xs"
proof (induction fmts arbitrary: st i)
  case Nil
  show ?case by simp
next
  case (Cons fmt fmts)
  show ?case
  proof (cases "is_downloading st")
    case False
    then show ?thesis by simp
  next
    case True
    let ?st0 = "post [Log (MsgFallbackAttempt (i + 1) fmt)] st"
    obtain st' r where y: "ydl_download ev (fallback_opts st i fmt) (fallback ev i) ?st0 = (st', r)"
      by (cases "ydl_download ev (fallback_opts st i fmt) (fallback ev i) ?st0") auto
    have a: "attempts st' = attempts st @ [(is_downloading ?st0, fallback_opts st i fmt)]"
      using attempts_ydl_download [of ev "fallback_opts st i fmt" "fallback ev i" ?st0] y by simp
    show ?thesis
    proof (cases r)
      case None
      then show ?thesis using True y a minimal_fallback_opts by simp
    next
      case (Some e)
      show ?thesis
      proof (cases "is_keyboard_interrupt e")
        case True
        then show ?thesis using \<open>is_downloading st\<close> Some y a minimal_fallback_opts by simp
      next
        case False
        let ?st1 = "post [Log (MsgFallbackFailed (i + 1) (truncate_msg (str_exn e)))] st'"
        obtain xs where xs: "attempts (fst (fallback_loop ev ?st1 (i + 1) fmts)) = attempts ?st1 @ xs"
            "list_all minimal_opts xs"
          using Cons [of ?st1 "i + 1"] by blast
        have "attempts (fst (fallback_loop ev st i (fmt # fmts)))
                = attempts st @ (is_downloading ?st0, fallback_opts st i fmt) # xs"
          using \<open>is_downloading st\<close> Some False y a xs(1) by simp
        then show ?thesis using xs(2) minimal_fallback_opts by auto
      qed
    qed
  qed
qed

lemma desperate_fallback_attempts:
  "attempts (fst (desperate_fallback ev st)) = attempts st @ [(is_downloading st, desperate_opts st)]"
proof -
  let ?st0 = "post [Log MsgDesperateConfig] st"
  obtain st' r where y: "ydl_download ev (desperate_opts st) (desperate ev) ?st0 = (st', r)"
    by (cases "ydl_download ev (desperate_opts st) (desperate ev) ?st0") auto
  have a: "attempts st' = attempts st @ [(is_downloading ?st0, desperate_opts st)]"
    using attempts_ydl_download [of ev "desperate_opts st" "desperate ev" ?st0] y by simp
  show ?thesis using y a by (cases r) (simp_all add: desperate_fallback_def post_def)
qed

lemma fallback_chain_attempts:
  "\<exists>xs. attempts (fst (fallback_chain ev st e)) = attempts st @ xs \<and> list_all minimal_opts xs"
proof -
  obtain st2 r where f: "fallback_download ev st = (st2, r)"
    by (cases "fallback_download ev st") auto
  obtain xs where xs: "attempts st2 = attempts st @ xs" "list_all minimal_opts xs"
    using fallback_loop_attempts [of ev st 0 fallback_formats] f
    by (auto simp: fallback_download_def)
  show ?thesis
  proof (cases r)
    case None
    then show ?thesis using f xs by (auto simp: fallback_chain_def)
  next
    case (Some fe)
    show ?thesis
    proof (cases "is_keyboard_interrupt fe")
      case True
      then show ?thesis using f xs Some by (auto simp: fallback_chain_def)
    next
      case False
      let ?st2' = "post [Log MsgTryingDesperate] st2"
      obtain st3 r3 where d: "desperate_fallback ev ?st2' = (st3, r3)"
        by (cases "desperate_fallback ev ?st2'") auto
      have a3: "attempts st3 = attempts st @ xs @ [(is_downloading ?st2', desperate_opts ?st2')]"
        using desperate_fallback_attempts [of ev ?st2'] d xs(1) by simp
      have "attempts (fst (fallback_chain ev st e)) = attempts st3"
        using f Some False d by (cases r3) (auto simp: fallback_chain_def)
      then show ?thesis using a3 xs(2) minimal_desperate_opts by auto
    qed
  qed
qed

lemma handle_primary_error_attempts:
  "\<exists>xs. attempts (fst (handle_primary_error ev st e)) = attempts st @ xs \<and> list_all minimal_opts xs"
proof -
  let ?r = "contains ''403'' (lower (str_exn e)) \<or> contains ''forbidden'' (lower (str_exn e))"
  let ?st1 = "if ?r then post [Log Msg403Forbidden, Log MsgTryIndividual] st
              else if contains ''unavailable'' (lower (str_exn e)) then post [Log MsgUnavailable] st
              else post [Log (MsgPrimaryFailed (take 200 (str_exn e))), Log MsgTryingFallback] st"
  have a1: "attempts ?st1 = attempts st" by simp
  show ?thesis
  proof (cases "\<not> ?r \<and> downloaded_files ?st1 = {}")
    case False
    then have "attempts (fst (handle_primary_error ev st e)) = attempts st @ []"
      by (auto simp: handle_primary_error_def Let_def)
    then show ?thesis by (intro exI [of _ "[]"]) simp
  next
    case True
    then have "handle_primary_error ev st e = fallback_chain ev ?st1 e"
      by (auto simp: handle_primary_error_def Let_def)
    then show ?thesis using fallback_chain_attempts [of ev ?st1 e] a1 by simp
  qed
qed

lemma download_thread_first_attempt:
  assumes "is_downloading st"
  shows "\<exists>xs. attempts (fst (download_thread ev st))
               = attempts st @ (True, fst (primary_opts ev (st\<lparr>downloaded_files := {}\<rparr>))) # xs"
proof -
  let ?st0 = "st\<lparr>downloaded_files := {}\<rparr>"
  let ?a = "(True, fst (primary_opts ev ?st0))"
  obtain st2 r where p: "primary_attempt ev ?st0 = (st2, r)"
    by (cases "primary_attempt ev ?st0") auto
  have a2: "attempts st2 = attempts st @ [?a]"
    using attempts_primary_attempt [of ev ?st0] p assms by simp
  show ?thesis
  proof (cases r)
    case None
    then have "attempts (fst (download_thread ev st)) = attempts st2"
      using p assms by (simp add: download_thread_def Let_def)
    then show ?thesis using a2 by simp
  next
    case (Some e)
    show ?thesis
    proof (cases "is_keyboard_interrupt e")
      case True
      then have "attempts (fst (download_thread ev st)) = attempts st2"
        using p assms Some by (simp add: download_thread_def Let_def)
      then show ?thesis using a2 by simp
    next
      case False
      let ?st3 = "if contains ''403'' (str_exn e) \<or> contains ''Forbidden'' (str_exn e)
                  then post [Log Msg403Warning] st2 else st2"
      have d: "download_thread ev st = handle_primary_error ev ?st3 e"
        using p assms Some False by (simp add: download_thread_def Let_def)
      obtain xs where "attempts (fst (handle_primary_error ev ?st3 e)) = attempts ?st3 @ xs"
        using handle_primary_error_attempts [of ev ?st3 e] by blast
      then have "attempts (fst (download_thread ev st)) = attempts st @ ?a # xs"
        using d a2 by simp
      then show ?thesis by blast
    qed
  qed
qed

section \<open>The selector used without the merge tool\<close>

text \<open>
  C5. The claim maps each tier, with the merge tool missing, to the table of
  \<open>get_no_merge_format_selector\<close> and has no merge-requiring selector requested. The
  download thread does not call that function: for the tier ``Data Saving'' the selector of
  the primary attempt is \<open>bestaudio\<close>, not \<open>worst/bestaudio\<close>. And the fallback list is
  not filtered by the merge tool: with the tool missing, after a failed primary attempt and
  a failed first fallback, the second fallback requests \<open>602+139-drc\<close>, which combines
  two streams.
\<close>

theorem no_merge_table_unused_counterexample:
  "fst (primary_opts (test_env\<lparr>ffmpeg_available := False\<rparr>) (test_app\<lparr>quality_var := ''Data Saving''\<rparr>))
     ''format'' = Some (VStr ''bestaudio'')
   \<and> fst (primary_opts (test_env\<lparr>ffmpeg_available := False\<rparr>) (test_app\<lparr>quality_var := ''Data Saving''\<rparr>))
     ''format'' \<noteq> Some (VStr ''worst/bestaudio'')
   \<and> map (\<lambda>a. snd a ''format'') (attempts (fst (download_thread no_ffmpeg_failing running_app)))
     = [Some (VStr ''bestaudio''), Some (VStr ''bestaudio''), Some (VStr ''602+139-drc'')]
   \<and> requires_merge ''602+139-drc''"
  by (simp add: fixture_defs thread_defs opts_defs example_defs str_defs requires_merge_def Let_def)

text \<open>
  C5, as amended. With the merge tool missing, the selector of the primary attempt (the
  first backend call of a run) is \<open>bestaudio\<close> for every tier, which combines no streams;
  the table AudioOnly to \<open>bestaudio\<close>, DataSaving to \<open>worst/bestaudio\<close>, BestQuality to
  \<open>best/bestaudio\<close> and any other tier to \<open>bestaudio\<close> is what
  \<open>get_no_merge_format_selector\<close> returns.
\<close>

theorem no_merge_primary_attempt_is_bestaudio:
  assumes "\<not> ffmpeg_available ev" and "is_downloading st"
  shows "fst (primary_opts ev (st\<lparr>downloaded_files := {}\<rparr>)) ''format'' = Some (VStr ''bestaudio'')
       \<and> map (\<lambda>a. snd a ''format'')
            (take 1 (drop (length (attempts st)) (attempts (fst (download_thread ev st)))))
           = [Some (VStr ''bestaudio'')]
       \<and> filter requires_merge (alternatives ''bestaudio'') = []
       \<and> get_no_merge_format_selector q
           = (if q = ''Data Saving'' then ''worst/bestaudio''
              else if q = ''Best Quality'' then ''best/bestaudio''
              else ''bestaudio'')"
proof -
  have f: "fst (primary_opts ev (st\<lparr>downloaded_files := {}\<rparr>)) ''format'' = Some (VStr ''bestaudio'')"
    using assms(1) by (simp add: primary_format)
  obtain xs where "attempts (fst (download_thread ev st))
               = attempts st @ (True, fst (primary_opts ev (st\<lparr>downloaded_files := {}\<rparr>))) # xs"
    using download_thread_first_attempt [OF assms(2), of ev] by blast
  then have t: "map (\<lambda>a. snd a ''format'')
            (take 1 (drop (length (attempts st)) (attempts (fst (download_thread ev st)))))
           = [Some (VStr ''bestaudio'')]"
    using f by simp
  show ?thesis
    using f t by (simp add: get_no_merge_format_selector_def alternatives_def requires_merge_def)
qed

text \<open>
  The amended C5 at a controller without the merge tool and the tier \<open>720p\<close> of the
  table.
\<close>

theorem no_merge_primary_attempt_is_bestaudio_witness:
  "map (\<lambda>a. snd a ''format'')
     (attempts (fst (download_thread (test_env\<lparr>ffmpeg_available := False\<rparr>) running_app)))
     = [Some (VStr ''bestaudio'')]
   \<and> get_no_merge_format_selector ''720p'' = ''bestaudio''"
proof -
  have h1: "\<not> ffmpeg_available (test_env\<lparr>ffmpeg_available := False\<rparr>)" by simp
  have h2: "is_downloading running_app" by (simp add: running_app_def)
  have l: "length (attempts (fst (download_thread (test_env\<lparr>ffmpeg_available := False\<rparr>) running_app))) = 1
           \<and> attempts running_app = []"
    by (simp add: fixture_defs thread_defs opts_defs example_defs Let_def)
  show ?thesis
    using no_merge_primary_attempt_is_bestaudio [OF h1 h2, of "''720p''"] l by simp
qed

section \<open>Access restriction\<close>

text \<open>
  C1. If the primary attempt raises an error (any exception but \<open>KeyboardInterrupt\<close>)
  whose text contains \<open>403\<close> or \<open>Forbidden\<close>, the thread makes no further backend call
  (the primary call is the only entry of \<open>attempts\<close>), logs the restriction, posts the
  error as the terminal outcome and returns.
\<close>

theorem restricted_error_skips_fallbacks:
  assumes "is_downloading st"
    and "primary_attempt ev (st\<lparr>downloaded_files := {}\<rparr>) = (st2, Some e)"
    and "\<not> is_keyboard_interrupt e"
    and "contains ''403'' (str_exn e) \<or> contains ''Forbidden'' (str_exn e)"
  shows "snd (download_thread ev st) = None
       \<and> attempts (fst (download_thread ev st))
           = attempts st @ [(True, fst (primary_opts ev (st\<lparr>downloaded_files := {}\<rparr>)))]
       \<and> posted (fst (download_thread ev st))
           = posted st2 @ [Log Msg403Warning, Log Msg403Forbidden, Log MsgTryIndividual,
                           DownloadError (str_exn e)]
               @ (if is_downloading st2 then [] else [CleanupDownload])"
proof -
  have r: "contains ''403'' (lower (str_exn e)) \<or> contains ''forbidden'' (lower (str_exn e))"
    using assms(4) contains_lower_403 contains_lower_forbidden by blast
  have a: "attempts st2 = attempts st @ [(True, fst (primary_opts ev (st\<lparr>downloaded_files := {}\<rparr>)))]"
    using attempts_primary_attempt [of ev "st\<lparr>downloaded_files := {}\<rparr>"] assms(1,2) by simp
  have h: "handle_primary_error ev (post [Log Msg403Warning] st2) e
        = (finally_cleanup (post [DownloadError (str_exn e)]
             (post [Log Msg403Forbidden, Log MsgTryIndividual] (post [Log Msg403Warning] st2))), None)"
    using r by (auto simp: handle_primary_error_def Let_def)
  have t: "download_thread ev st = handle_primary_error ev (post [Log Msg403Warning] st2) e"
    using assms by (simp add: download_thread_def Let_def)
  show ?thesis
    unfolding t h using a by (simp add: finally_cleanup_def post_def)
qed

text \<open>
  C1 at a backend whose primary call raises ``HTTP Error 403: Forbidden''.
\<close>

theorem restricted_error_skips_fallbacks_witness:
  "snd (download_thread restricted_env running_app) = None
   \<and> map fst (attempts (fst (download_thread restricted_env running_app))) = [True]
   \<and> posted (fst (download_thread restricted_env running_app))
       = [Log Msg403Warning, Log Msg403Forbidden, Log MsgTryIndividual,
          DownloadError ''HTTP Error 403: Forbidden'']"
proof -
  let ?st2 = "fst (primary_attempt restricted_env (running_app\<lparr>downloaded_files := {}\<rparr>))"
  have h1: "is_downloading running_app" by (simp add: fixture_defs)
  have h2: "primary_attempt restricted_env (running_app\<lparr>downloaded_files := {}\<rparr>)
              = (?st2, Some (Exception ''HTTP Error 403: Forbidden''))"
    by (simp add: fixture_defs thread_defs opts_defs example_defs)
  have h3: "\<not> is_keyboard_interrupt (Exception ''HTTP Error 403: Forbidden'')" by simp
  have h4: "contains ''403'' (str_exn (Exception ''HTTP Error 403: Forbidden''))
            \<or> contains ''Forbidden'' (str_exn (Exception ''HTTP Error 403: Forbidden''))" by simp
  have p: "posted ?st2 = [] \<and> is_downloading ?st2"
    by (simp add: fixture_defs thread_defs opts_defs example_defs)
  show ?thesis
    using restricted_error_skips_fallbacks [OF h1 h2 h3 h4] p by (simp add: fixture_defs example_defs)
qed

section \<open>Progress events\<close>

text \<open>
  The three examples of the precedence: byte totals win over fragment fields, fragment
  fields alone give the fragment ratio, and bytes alone give 2 per MiB.
\<close>

lemma progress_hook_examples:
  "progress_hook pf True
     (downloading_event\<lparr>downloaded_bytes := Some (PyNum 50), total_bytes := Some (PyNum 100),
        fragment_index := Some (PyNum 3), fragment_count := Some (PyNum 10)\<rparr>)
     = Inr [UpdateProgress 50]
   \<and> progress_hook pf True
     (downloading_event\<lparr>fragment_index := Some (PyNum 3), fragment_count := Some (PyNum 10)\<rparr>)
     = Inr [UpdateProgress 30]
   \<and> progress_hook pf True (downloading_event\<lparr>downloaded_bytes := Some (PyNum 1048576)\<rparr>)
     = Inr [UpdateProgress 2]"
  by (simp add: progress_hook_def downloading_event_def positive_num_def truthy_num_def item_num_def)

text \<open>
  C3. The claim lets a tier that is not satisfied fall through to the next one. In
  \<open>progress_hook\<close> the fragment tier is entered as soon as both fragment keys are present,
  and the test that the count is positive is nested inside it: an event with
  \<open>fragment_index\<close> 5, \<open>fragment_count\<close> \<open>None\<close> and 1 MiB downloaded posts no progress
  at all, where the same event without the fragment keys posts 2.
\<close>

theorem fragment_gate_blocks_lower_tiers:
  "progress_hook dec_float True
     (downloading_event\<lparr>downloaded_bytes := Some (PyNum 1048576), fragment_index := Some (PyNum 5),
        fragment_count := Some PyNone\<rparr>) = Inr []
   \<and> progress_hook dec_float True
     (downloading_event\<lparr>downloaded_bytes := Some (PyNum 1048576)\<rparr>) = Inr [UpdateProgress 2]"
  by (simp add: progress_hook_def downloading_event_def positive_num_def truthy_num_def)

section \<open>Finished files\<close>











section \<open>Playlist ranges and explicit indices\<close>

lemma length_video_checkboxes [simp]: "length (video_checkboxes dlg) = length (checked dlg)"
  unfolding video_checkboxes_def length_zip length_map length_upt by simp

lemma playlist_items_primary:
  "fst (primary_opts ev st) ''playlist_items'' = fst (playlist_opts ev st Map.empty) ''playlist_items''"
  by (simp add: primary_opts_def playlist_opts_def subtitle_opts_def format_opts_def base_opts_def
      Let_def split: prod.splits)

text \<open>
  C4. The claim has out-of-range requests reported as \<open>InvalidRange\<close> and never sent
  to the backend. The download thread does not look at the entry count: with start 5 and
  end 3 it sends the item selector \<open>5-3\<close>, and with start 11 and no end it sends
  \<open>11-\<close>.
\<close>

theorem unchecked_range_sent_counterexample:
  "map (\<lambda>a. snd a ''playlist_items'') (attempts (fst (download_thread test_env (range_app ''5'' ''3''))))
     = [Some (VStr ''5-3'')]
   \<and> map (\<lambda>a. snd a ''playlist_items'') (attempts (fst (download_thread test_env (range_app ''11'' []))))
     = [Some (VStr ''11-'')]"
  by (simp add: fixture_defs thread_defs opts_defs example_defs str_defs Let_def)

text \<open>
  C4, as amended. The range check lives in the selector dialog: \<open>select_range\<close>
  reports \<open>InvalidRange\<close> exactly when the parsed start or end violates
  \<open>1 \<le> start \<le> count\<close> and \<open>start \<le> end \<le> count\<close> (the end defaulting to the count). The
  download thread builds the item selector from the start and end fields as they parse (an
  unparsable start is 1, an unparsable end is no end), \<open>start-end\<close> or \<open>start-\<close> when
  there is no end (or the end is 0), whatever their values.
\<close>

theorem range_checked_in_dialog_only:
  assumes "py_int ev (range_start dlg) = Some a"
    and "(if strip (range_end dlg) \<noteq> [] then py_int ev (strip (range_end dlg))
          else Some (int (length (checked dlg)))) = Some b"
    and "playlist_var st" and "selected_playlist_indices st = []"
    and "playlist_start_var st \<noteq> []"
    and "a' = (case py_int ev (playlist_start_var st) of Some n \<Rightarrow> n | None \<Rightarrow> 1)"
    and "end_num = (if playlist_end_var st \<noteq> [] then py_int ev (playlist_end_var st) else None)"
  shows "(select_range ev dlg = Inl InvalidRange)
           = (a < 1 \<or> int (length (checked dlg)) < a \<or> b < a \<or> int (length (checked dlg)) < b)
       \<and> fst (primary_opts ev st) ''playlist_items''
           = Some (VStr (str_int a' @ ''-''
                @ (case end_num of Some e \<Rightarrow> (if e \<noteq> 0 then str_int e else []) | None \<Rightarrow> [])))"
proof -
  have d: "(select_range ev dlg = Inl InvalidRange)
           = (a < 1 \<or> int (length (checked dlg)) < a \<or> b < a \<or> int (length (checked dlg)) < b)"
    using assms(1,2) by (auto simp: select_range_def Let_def split: if_splits)
  have p: "fst (playlist_opts ev st Map.empty) ''playlist_items''
           = Some (VStr (str_int a' @ ''-''
                @ (case end_num of Some e \<Rightarrow> (if e \<noteq> 0 then str_int e else []) | None \<Rightarrow> [])))"
    using assms(3-7) by (simp add: playlist_opts_def Let_def split: option.splits)
  show ?thesis using d p by (simp add: playlist_items_primary)
qed

text \<open>
  The amended C4 at start 5, end 3 and ten entries.
\<close>

theorem range_checked_in_dialog_only_witness:
  "select_range test_env (range_dialog ''5'' ''3'') = Inl InvalidRange
   \<and> fst (primary_opts test_env (range_app ''5'' ''3'')) ''playlist_items'' = Some (VStr ''5-3'')"
proof -
  have h1: "py_int test_env (range_start (range_dialog ''5'' ''3'')) = Some 5"
    by (simp add: fixture_defs example_defs)
  have h2: "(if strip (range_end (range_dialog ''5'' ''3'')) \<noteq> []
             then py_int test_env (strip (range_end (range_dialog ''5'' ''3'')))
             else Some (int (length (checked (range_dialog ''5'' ''3''))))) = Some 3"
    by (simp add: fixture_defs example_defs strip_def is_space_def)
  have h3: "playlist_var (range_app ''5'' ''3'')"
    and h4: "selected_playlist_indices (range_app ''5'' ''3'') = []"
    and h5: "playlist_start_var (range_app ''5'' ''3'') \<noteq> []"
    and h6: "5 = (case py_int test_env (playlist_start_var (range_app ''5'' ''3'')) of
                    Some n \<Rightarrow> n | None \<Rightarrow> 1)"
    and h7: "Some 3 = (if playlist_end_var (range_app ''5'' ''3'') \<noteq> []
                       then py_int test_env (playlist_end_var (range_app ''5'' ''3'')) else None)"
    by (simp_all add: fixture_defs example_defs)
  show ?thesis
    using range_checked_in_dialog_only [OF h1 h2 h3 h4 h5 h6 h7]
    by (simp add: fixture_defs str_defs)
qed

lemma video_checkboxes_two_of_five:
  "video_checkboxes two_of_five = [(False, 1), (True, 2), (False, 3), (False, 4), (True, 5)]"
  by (simp add: video_checkboxes_def two_of_five_def upt_rec)

lemma str_int_2_5: "str_int 2 = ''2'' \<and> str_int 5 = ''5''"
  by (simp add: str_int_def str_nat.simps digit_char_def)

lemma video_checkboxes_third_of_five:
  "video_checkboxes third_of_five = [(False, 1), (False, 2), (True, 3), (False, 4), (False, 5)]"
  by (simp add: video_checkboxes_def third_of_five_def upt_rec)

lemma str_int_3: "str_int 3 = ''3''"
  by (simp add: str_int_def str_nat.simps digit_char_def)

lemma selected_app_third:
  "selected_app third_of_five
     = running_app\<lparr>playlist_var := True, playlist_start_var := ''3'', playlist_end_var := ''3'',
                    selected_playlist_indices := [3]\<rparr>"
  by (simp add: selected_app_def apply_selection_def video_checkboxes_third_of_five list_min_def
      list_max_def str_int_3 Let_def)

lemma selected_app_two:
  "selected_app two_of_five
     = running_app\<lparr>playlist_var := True, playlist_start_var := ''2'', playlist_end_var := ''5'',
                    selected_playlist_indices := [2, 5]\<rparr>"
  by (simp add: selected_app_def apply_selection_def video_checkboxes_two_of_five list_min_def
      list_max_def str_int_2_5 Let_def)

lemma dec_int_digits: "dec_int ''2'' = Some 2 \<and> dec_int ''3'' = Some 3 \<and> dec_int ''5'' = Some 5"
  by (simp add: dec_int_def isdigit_def digit_val_def)

text \<open>
  C7. The claim has the selection cleared after one use, so that the next request does
  not reuse it. \<open>apply_selection\<close> also writes the first and the last selected index into
  the range fields, and the request clears only the list: with entry 3 selected the first
  request sends \<open>3\<close> and the next one, with no new selection, sends \<open>3-3\<close>, the same
  entry; with entries 2 and 5 selected the requests send \<open>2,5\<close> and then \<open>2-5\<close>. With
  playlist mode off, a request neither sends nor clears the selection.
\<close>

theorem explicit_selection_reused_as_range:
  "fst (primary_opts test_env (selected_app third_of_five)) ''playlist_items'' = Some (VStr ''3'')
   \<and> selected_playlist_indices (snd (primary_opts test_env (selected_app third_of_five))) = []
   \<and> fst (primary_opts test_env (snd (primary_opts test_env (selected_app third_of_five))))
       ''playlist_items'' = Some (VStr ''3-3'')
   \<and> fst (primary_opts test_env (selected_app two_of_five)) ''playlist_items'' = Some (VStr ''2,5'')
   \<and> fst (primary_opts test_env (snd (primary_opts test_env (selected_app two_of_five))))
       ''playlist_items'' = Some (VStr ''2-5'')
   \<and> fst (primary_opts test_env ((selected_app two_of_five)\<lparr>playlist_var := False\<rparr>))
       ''playlist_items'' = None
   \<and> selected_playlist_indices
       (snd (primary_opts test_env ((selected_app two_of_five)\<lparr>playlist_var := False\<rparr>))) = [2, 5]"
  by (simp add: selected_app_third selected_app_two running_app_def test_app_def init_app_def
      test_env_def opts_defs post_def dec_int_digits str_int_2_5 str_int_3 Let_def)

section \<open>Cancellation\<close>

text \<open>
  C6. The claim has the flag checked before every attempt, the last-resort attempt
  included. \<open>desperate_fallback\<close> makes its backend call without a check and registers no
  progress hook: when the primary attempt and the five fallbacks fail and the user presses
  Stop during the fifth fallback, a seventh backend call is made with the flag cleared.
\<close>

theorem desperate_attempt_started_after_stop:
  "map fst (attempts (fst (download_thread stop_in_last_fallback running_app)))
     = [True, True, True, True, True, True, False]
   \<and> snd (last (attempts (fst (download_thread stop_in_last_fallback running_app)))) ''outtmpl''
     = Some (VPath ''downloads'' ''%(title)s_desperate.%(ext)s'')
   \<and> hooks_of (snd (last (attempts (fst (download_thread stop_in_last_fallback running_app))))) = []"
  by (simp add: stop_in_last_fallback_def running_app_def thread_defs opts_defs example_defs
      str_defs Let_def)

section \<open>One session at a time\<close>

lemma btn_inv_step:
  assumes "is_downloading st \<longrightarrow> download_btn st = DISABLED"
  shows "is_downloading (ui_step ev st e) \<longrightarrow> download_btn (ui_step ev st e) = DISABLED"
proof (cases e)
  case (Run a)
  then show ?thesis using assms by (cases a) simp_all
qed (use assms in \<open>auto simp: start_download_def stop_download_def reset_all_options_def post_def Let_def\<close>)

lemma btn_inv_foldl:
  "(is_downloading st \<longrightarrow> download_btn st = DISABLED)
   \<Longrightarrow> (is_downloading (foldl (ui_step ev) st evs) \<longrightarrow> download_btn (foldl (ui_step ev) st evs) = DISABLED)"
proof (induction evs arbitrary: st)
  case Nil
  then show ?case by simp
next
  case (Cons e evs)
  show ?case using Cons.IH [OF btn_inv_step [OF Cons.prems, of ev e]] by simp
qed

text \<open>
  While the flag is set the interface starts nothing: the download button is disabled
  and neither F9 nor a click on it changes the state.
\<close>

lemma interface_guard_while_flag_set:
  assumes "st = foldl (ui_step ev) (init_app ev) evs" "is_downloading st"
  shows "download_btn st = DISABLED
       \<and> ui_step ev st PressF9 = st
       \<and> ui_step ev st ClickDownload = st"
proof -
  have "download_btn st = DISABLED"
    using btn_inv_foldl [of "init_app ev" ev evs] assms by (simp add: init_app_def)
  then show ?thesis using assms(2) by simp
qed

text \<open>
  C9. The claim has at most one session active. The flag is not the session:
  \<open>stop_download\<close> clears it at once, while the worker goes on until its next check, and
  the F9 binding tests only the flag. After a URL is typed, F9 starts a worker; F10 clears
  the flag with that worker still running (no handler of it has run); a second F9 then
  starts a second worker and sets the flag again.
\<close>

theorem stop_then_f9_starts_second_worker:
  "is_downloading (foldl (ui_step test_env) (init_app test_env)
       [TypeUrl ''https://www.youtube.com/watch?v=abc'', PressF9])
   \<and> threads (foldl (ui_step test_env) (init_app test_env)
       [TypeUrl ''https://www.youtube.com/watch?v=abc'', PressF9, PressF10])
       = [''https://www.youtube.com/watch?v=abc'']
   \<and> \<not> is_downloading (foldl (ui_step test_env) (init_app test_env)
       [TypeUrl ''https://www.youtube.com/watch?v=abc'', PressF9, PressF10])
   \<and> threads (foldl (ui_step test_env) (init_app test_env)
       [TypeUrl ''https://www.youtube.com/watch?v=abc'', PressF9, PressF10, PressF9])
       = [''https://www.youtube.com/watch?v=abc'', ''https://www.youtube.com/watch?v=abc'']
   \<and> is_downloading (foldl (ui_step test_env) (init_app test_env)
       [TypeUrl ''https://www.youtube.com/watch?v=abc'', PressF9, PressF10, PressF9])"
  by (simp add: start_download_def stop_download_def post_def example_defs strip_def is_space_def Let_def)

section \<open>The options of the fallback attempts\<close>



end
